theory Spec2Isabelle
  imports Complex_Main
begin

section \<open>The numerical core of the single-qubit tutor\<close>

text \<open>
  The component keeps a qubit as an array of two complex amplitudes, each an object
  \<^verbatim>\<open>{re, im}\<close> of two JavaScript numbers. The amplitudes are modelled in exact
  arithmetic, as reals. The core adds, subtracts, multiplies, takes the square root of
  a sum of squares and divides once, \<^verbatim>\<open>1 / s\<close> in \<^verbatim>\<open>norm\<close>. That division is the
  only place where exact arithmetic leaves the finite numbers: for \<open>s = 0\<close> the
  quotient is \<^verbatim>\<open>Infinity\<close>, and \<^verbatim>\<open>scale\<close> multiplies the components, which are all
  zero then, by it: \<^verbatim>\<open>0 * Infinity\<close> is \<^verbatim>\<open>NaN\<close>. The vector whose four numbers are
  \<^verbatim>\<open>NaN\<close> is the constructor \<open>NaNs\<close> of the state type. Arithmetic on \<^verbatim>\<open>NaN\<close>
  gives \<^verbatim>\<open>NaN\<close> and every comparison with \<^verbatim>\<open>NaN\<close> is false, which is how the
  operations below treat \<open>NaNs\<close>. Rounding and signed zeros are not modelled.
\<close>

subsection \<open>Complex numbers\<close>

datatype cplx = C (re: real) (im: real)

definition add :: "cplx \<Rightarrow> cplx \<Rightarrow> cplx" where
  "add a b = C (re a + re b) (im a + im b)"

definition sub :: "cplx \<Rightarrow> cplx \<Rightarrow> cplx" where
  "sub a b = C (re a - re b) (im a - im b)"

definition mul :: "cplx \<Rightarrow> cplx \<Rightarrow> cplx" where
  "mul a b = C (re a * re b - im a * im b) (re a * im b + im a * re b)"

definition scale :: "cplx \<Rightarrow> real \<Rightarrow> cplx" where
  "scale a k = C (re a * k) (im a * k)"

definition conj_c :: "cplx \<Rightarrow> cplx" where
  "conj_c a = C (re a) (- im a)"

definition abs2 :: "cplx \<Rightarrow> real" where
  "abs2 a = re a * re a + im a * im a"

subsection \<open>State vectors and matrices\<close>

text \<open>
  A state is a two-element array of amplitudes, or the all-\<^verbatim>\<open>NaN\<close> array that
  \<^verbatim>\<open>norm\<close> produces from the zero vector.
\<close>

datatype qstate = Vec cplx cplx | NaNs

text \<open>
  A matrix is an array of two rows of two entries. \<^verbatim>\<open>matMul\<close> tests every entry for
  truthiness before it multiplies: an entry built by \<^verbatim>\<open>C\<close> is an object and is truthy
  whatever its value; a missing entry (\<^verbatim>\<open>undefined\<close>) is \<open>None\<close>.
\<close>

type_synonym row = "cplx option \<times> cplx option"
type_synonym mat2 = "row \<times> row"

definition entry_times :: "cplx option \<Rightarrow> cplx \<Rightarrow> cplx" where
  \<comment> \<open>\<^verbatim>\<open>m[i][j] ? mul(m[i][j], v[j]) : C(0,0)\<close>\<close>
  "entry_times e x = (case e of Some z \<Rightarrow> mul z x | None \<Rightarrow> C 0 0)"

fun matMul :: "mat2 \<Rightarrow> qstate \<Rightarrow> qstate" where
  "matMul ((m00, m01), (m10, m11)) (Vec v0 v1) =
     Vec (add (entry_times m00 v0) (entry_times m01 v1))
         (add (entry_times m10 v0) (entry_times m11 v1))"
| "matMul m NaNs = NaNs"

fun norm_vec :: "qstate \<Rightarrow> qstate" where
  "norm_vec (Vec v0 v1) =
     (let s = sqrt (abs2 v0 + abs2 v1)
      in if s = 0 then NaNs
         else Vec (scale v0 (1 / s)) (scale v1 (1 / s)))"
| "norm_vec NaNs = NaNs"

fun dot :: "qstate \<Rightarrow> qstate \<Rightarrow> cplx option" where
  \<comment> \<open>the \<^verbatim>\<open>reduce\<close> over the two components, from \<^verbatim>\<open>C(0,0)\<close>; \<open>None\<close> is \<^verbatim>\<open>NaN\<close>\<close>
  "dot (Vec x0 x1) (Vec y0 y1) =
     Some (add (add (C 0 0) (mul (conj_c x0) y0)) (mul (conj_c x1) y1))"
| "dot _ _ = None"

subsection \<open>The gate table\<close>

text \<open>
  Each gate has a name, a matrix and a description; the description is display text
  that no operation of the core reads, and is left out.
\<close>

record gate =
  name :: string
  matrix :: mat2

definition gate_I :: gate where
  "gate_I = \<lparr>name = ''I'',
     matrix = ((Some (C 1 0), Some (C 0 0)), (Some (C 0 0), Some (C 1 0)))\<rparr>"

definition gate_X :: gate where
  "gate_X = \<lparr>name = ''X'',
     matrix = ((Some (C 0 0), Some (C 1 0)), (Some (C 1 0), Some (C 0 0)))\<rparr>"

definition gate_Z :: gate where
  "gate_Z = \<lparr>name = ''Z'',
     matrix = ((Some (C 1 0), Some (C 0 0)), (Some (C 0 0), Some (C (- 1) 0)))\<rparr>"

definition gate_H :: gate where
  "gate_H = \<lparr>name = ''H'',
     matrix = ((Some (C (1 / sqrt 2) 0), Some (C 0 0)),
               (Some (C (1 / sqrt 2) 0), Some (C 0 0)))\<rparr>"

definition gate_S :: gate where
  "gate_S = \<lparr>name = ''S'',
     matrix = ((Some (C 1 0), Some (C 0 0)), (Some (C 0 0), Some (C 0 1)))\<rparr>"

definition gate_T :: gate where
  "gate_T = \<lparr>name = ''T'',
     matrix = ((Some (C 1 0), Some (C 0 0)),
               (Some (C 0 0), Some (C (cos (pi / 4)) (sin (pi / 4)))))\<rparr>"

definition GATES :: "(string \<times> gate) list" where
  \<comment> \<open>the own properties of the object literal, in the order written\<close>
  "GATES = [(''I'', gate_I), (''X'', gate_X), (''Z'', gate_Z),
            (''H'', gate_H), (''S'', gate_S), (''T'', gate_T)]"

text \<open>
  \<^verbatim>\<open>GATES\<close> is an object literal, so its prototype is \<^verbatim>\<open>Object.prototype\<close>, and
  \<^verbatim>\<open>GATES[gname]\<close> finds the properties inherited from it as well as the six gates.
  The inherited values are functions (the prototype object itself for
  \<^verbatim>\<open>__proto__\<close>): all truthy, none with a \<^verbatim>\<open>matrix\<close> property.
\<close>

definition Object_prototype_keys :: "string list" where
  "Object_prototype_keys =
     [''constructor'', ''hasOwnProperty'', ''isPrototypeOf'', ''propertyIsEnumerable'',
      ''toLocaleString'', ''toString'', ''valueOf'', ''__proto__'',
      ''__defineGetter__'', ''__defineSetter__'', ''__lookupGetter__'',
      ''__lookupSetter__'']"

datatype lookup = Own gate | Inherited | Undefined

definition GATES_get :: "string \<Rightarrow> lookup" where
  "GATES_get gname =
     (case map_of GATES gname of
        Some g \<Rightarrow> Own g
      | None \<Rightarrow> if gname \<in> set Object_prototype_keys then Inherited else Undefined)"

subsection \<open>Bloch angles\<close>

definition atan2 :: "real \<Rightarrow> real \<Rightarrow> real" where
  \<comment> \<open>\<^verbatim>\<open>Math.atan2(y, x)\<close>: the angle of the point \<open>(x, y)\<close> in \<open>(-\<pi>, \<pi>]\<close>, and 0 at the origin\<close>
  "atan2 y x =
     (if 0 < x then arctan (y / x)
      else if x < 0 then (if 0 \<le> y then arctan (y / x) + pi else arctan (y / x) - pi)
      else if 0 < y then pi / 2
      else if y < 0 then - (pi / 2)
      else 0)"

definition arg :: "cplx \<Rightarrow> real" where
  "arg z = atan2 (im z) (re z)"

record angles =
  theta :: real
  phi :: real

fun stateToBlochAngles :: "qstate \<Rightarrow> angles option" where
  \<comment> \<open>\<open>None\<close>: both angles are \<^verbatim>\<open>NaN\<close>\<close>
  "stateToBlochAngles (Vec a b) =
     (let ra = sqrt (abs2 a);
          rb = sqrt (abs2 b);
          theta = 2 * arccos (min 1 (max (- 1) ra));
          phi = arg b - arg a
      in Some \<lparr>theta = theta, phi = phi\<rparr>)"
| "stateToBlochAngles NaNs = None"

subsection \<open>The component's state and its operations\<close>

text \<open>
  The state of the component is the five values its hooks hold. An operation takes the
  state and returns the new one, or the exception it throws: the only one the core can
  throw is the \<^verbatim>\<open>TypeError\<close> of reading a property of \<^verbatim>\<open>undefined\<close>.
\<close>

datatype error = TypeError

datatype entry = Entry (gate: string) (state_of: qstate)

record app =
  state :: qstate
  circuit :: "string list"
  history :: "entry list"
  selectedGate :: string
  measurement :: "nat option"

definition zero :: qstate where
  "zero = Vec (C 1 0) (C 0 0)"

definition one :: qstate where
  "one = Vec (C 0 0) (C 1 0)"

definition init :: app where
  "init = \<lparr>state = zero, circuit = [], history = [], selectedGate = ''H'',
           measurement = None\<rparr>"

text \<open>
  \<open>applyGateName\<close> takes the state as an argument (the source defaults it to the
  current state). A name that is no property at all gives \<^verbatim>\<open>undefined\<close>, and the guard
  \<^verbatim>\<open>if(!gate) return st\<close> returns the state. An inherited property passes the guard,
  its \<^verbatim>\<open>matrix\<close> is \<^verbatim>\<open>undefined\<close>, and \<^verbatim>\<open>matMul\<close> throws on reading \<^verbatim>\<open>m[0]\<close>.
\<close>

definition applyGateName :: "string \<Rightarrow> qstate \<Rightarrow> error + qstate" where
  "applyGateName gname st =
     (case GATES_get gname of
        Undefined \<Rightarrow> Inr st
      | Inherited \<Rightarrow> Inl TypeError
      | Own g \<Rightarrow> Inr (norm_vec (matMul (matrix g) st)))"

text \<open>
  The loop of \<open>stepCircuit\<close> goes through the circuit in order, with the running state
  and the history built so far; an exception leaves the loop before any hook is set.
\<close>

fun stepCircuit_loop ::
  "string list \<Rightarrow> qstate \<Rightarrow> entry list \<Rightarrow> error + (qstate \<times> entry list)" where
  "stepCircuit_loop [] st newHistory = Inr (st, newHistory)"
| "stepCircuit_loop (g # gs) st newHistory =
     (case applyGateName g st of
        Inl e \<Rightarrow> Inl e
      | Inr st' \<Rightarrow> stepCircuit_loop gs st' (newHistory @ [Entry g st']))"

definition stepCircuit :: "app \<Rightarrow> error + app" where
  "stepCircuit s =
     (case stepCircuit_loop (circuit s) zero [] of
        Inl e \<Rightarrow> Inl e
      | Inr (st, newHistory) \<Rightarrow>
          Inr (s\<lparr>history := newHistory,
                 state := (if length newHistory \<noteq> 0
                           then state_of (newHistory ! (length newHistory - 1))
                           else zero)\<rparr>))"

definition addGateToCircuit :: "app \<Rightarrow> app" where
  "addGateToCircuit s = s\<lparr>circuit := circuit s @ [selectedGate s]\<rparr>"

definition clearCircuit :: "app \<Rightarrow> app" where
  "clearCircuit s = s\<lparr>circuit := [], history := [], state := zero, measurement := None\<rparr>"

text \<open>
  The loop of \<open>runStep\<close> counts \<open>i\<close> up from 0 while \<^verbatim>\<open>i <= index && i < circuit.length\<close>;
  the second test keeps the read \<^verbatim>\<open>circuit[i]\<close> inside the array.
\<close>

function runStep_loop :: "string list \<Rightarrow> int \<Rightarrow> nat \<Rightarrow> qstate \<Rightarrow> error + qstate" where
  "runStep_loop circ index i st =
     (if int i \<le> index \<and> i < length circ
      then (case applyGateName (circ ! i) st of
              Inl e \<Rightarrow> Inl e
            | Inr st' \<Rightarrow> runStep_loop circ index (i + 1) st')
      else Inr st)"
  by pat_completeness auto
termination
  by (relation "measure (\<lambda>(circ, index, i, st). length circ - i)") auto

declare runStep_loop.simps [simp del]

definition runStep :: "int \<Rightarrow> app \<Rightarrow> error + app" where
  "runStep index s =
     (case runStep_loop (circuit s) index 0 zero of
        Inl e \<Rightarrow> Inl e
      | Inr st \<Rightarrow> Inr (s\<lparr>state := st\<rparr>))"

fun p0_of :: "qstate \<Rightarrow> real option" where
  \<comment> \<open>\<^verbatim>\<open>abs2(state[0])\<close>; \<open>None\<close> is \<^verbatim>\<open>NaN\<close>\<close>
  "p0_of (Vec a b) = Some (abs2 a)"
| "p0_of NaNs = None"

fun js_less :: "real \<Rightarrow> real option \<Rightarrow> bool" where
  \<comment> \<open>\<^verbatim>\<open>r < p0\<close>, false when \<^verbatim>\<open>p0\<close> is \<^verbatim>\<open>NaN\<close>\<close>
  "js_less r (Some p) = (r < p)"
| "js_less r None = False"

definition measure_q :: "real \<Rightarrow> app \<Rightarrow> app" where
  \<comment> \<open>\<open>r\<close> is the value \<^verbatim>\<open>Math.random()\<close> returns\<close>
  "measure_q r s =
     (let p0 = p0_of (state s);
          outcome = (if js_less r p0 then 0 else 1 :: nat)
      in s\<lparr>measurement := Some outcome,
            state := (if outcome = 0 then zero else one)\<rparr>)"

subsection \<open>Vocabulary of the properties\<close>

definition unit_norm :: "qstate \<Rightarrow> bool" where
  \<comment> \<open>the squared magnitudes sum to 1; \<^verbatim>\<open>NaN === 1\<close> is false\<close>
  "unit_norm st = (case st of Vec a b \<Rightarrow> abs2 a + abs2 b = 1 | NaNs \<Rightarrow> False)"

fun fold_gates :: "string list \<Rightarrow> qstate \<Rightarrow> error + qstate" where
  \<comment> \<open>folding \<open>applyGateName\<close> over a list of gate names, left to right; a throw ends it\<close>
  "fold_gates [] st = Inr st"
| "fold_gates (g # gs) st =
     (case applyGateName g st of Inl e \<Rightarrow> Inl e | Inr st' \<Rightarrow> fold_gates gs st')"

definition known_names :: "string list \<Rightarrow> bool" where
  \<comment> \<open>no name of the list is a property that the gate table only inherits\<close>
  "known_names gs = (\<forall>g \<in> set gs. GATES_get g \<noteq> Inherited)"

section \<open>Lemmas on the arithmetic and the gate table\<close>

lemma GATES_get_simps:
  "GATES_get ''I'' = Own gate_I" "GATES_get ''X'' = Own gate_X"
  "GATES_get ''Z'' = Own gate_Z" "GATES_get ''H'' = Own gate_H"
  "GATES_get ''S'' = Own gate_S" "GATES_get ''T'' = Own gate_T"
  by (simp_all add: GATES_get_def GATES_def)

lemma gate_names_known: "set gs \<subseteq> fst ` set GATES \<Longrightarrow> known_names gs"
  by (auto simp: known_names_def GATES_def GATES_get_simps)

lemma abs2_nonneg: "0 \<le> abs2 a"
  by (simp add: abs2_def)

lemma abs2_zero_iff: "abs2 a = 0 \<longleftrightarrow> a = C 0 0"
  by (cases a) (simp add: abs2_def sum_power2_eq_zero_iff flip: power2_eq_square)

lemma abs2_mul: "abs2 (mul a b) = abs2 a * abs2 b"
  by (simp add: abs2_def mul_def algebra_simps)

lemma abs2_scale: "abs2 (scale a k) = abs2 a * (k * k)"
  by (simp add: abs2_def scale_def algebra_simps)

lemma abs2_cis: "abs2 (C (cos x) (sin x)) = 1"
  by (simp add: abs2_def flip: power2_eq_square)

lemma abs2_cmod: "abs2 a = (cmod (Complex (re a) (im a)))\<^sup>2"
  by (simp add: abs2_def cmod_power2 flip: power2_eq_square)

lemma sqrt_abs2_cmod: "sqrt (abs2 a) = cmod (Complex (re a) (im a))"
  by (simp add: abs2_def cmod_def power2_eq_square)

lemma sqrt_half: "2 * sqrt (1 / 2) = sqrt 2"
  by (simp add: real_sqrt_divide field_simps)

text \<open>The division in \<open>norm_vec\<close> is by zero exactly on the zero vector.\<close>

lemma norm_vec_NaNs_iff: "norm_vec (Vec a b) = NaNs \<longleftrightarrow> a = C 0 0 \<and> b = C 0 0"
proof -
  have "abs2 a + abs2 b = 0 \<longleftrightarrow> abs2 a = 0 \<and> abs2 b = 0"
    using abs2_nonneg [of a] abs2_nonneg [of b] by linarith
  then show ?thesis by (simp add: Let_def abs2_zero_iff)
qed

lemma norm_vec_unit: "unit_norm (Vec a b) \<Longrightarrow> norm_vec (Vec a b) = Vec a b"
  by (simp add: unit_norm_def scale_def)

text \<open>Normalising any vector but the zero vector gives a unit vector.\<close>

lemma norm_vec_makes_unit:
  assumes "a \<noteq> C 0 0 \<or> b \<noteq> C 0 0"
  shows "unit_norm (norm_vec (Vec a b))"
proof -
  let ?n = "abs2 a + abs2 b"
  have "abs2 a \<noteq> 0 \<or> abs2 b \<noteq> 0" using assms by (simp add: abs2_zero_iff)
  then have pos: "0 < ?n" using abs2_nonneg [of a] abs2_nonneg [of b] by linarith
  then have s: "sqrt ?n \<noteq> 0" by simp
  have "sqrt ?n * sqrt ?n = ?n" using pos by simp
  then have "?n * ((1 / sqrt ?n) * (1 / sqrt ?n)) = 1" using s by (simp add: field_simps)
  then show ?thesis using s
    by (simp add: unit_norm_def Let_def abs2_scale add_divide_distrib [symmetric])
qed

text \<open>
  The model of \<^verbatim>\<open>Math.atan2\<close> is the polar angle of the point, and agrees with the
  principal argument of the library's complex numbers.
\<close>

lemma atan2_range: "- pi < atan2 y x \<and> atan2 y x \<le> pi"
proof -
  have b: "- (pi / 2) < arctan (y / x)" "arctan (y / x) < pi / 2"
    by (rule arctan_lbound, rule arctan_ubound)
  have neg: "arctan (y / x) \<le> 0" if "x < 0" "0 \<le> y"
    using that by (simp add: divide_nonneg_neg)
  have pos: "0 < arctan (y / x)" if "x < 0" "y < 0"
    using that by (simp add: divide_neg_neg)
  show ?thesis
    using b neg pos pi_gt_zero unfolding atan2_def by (auto simp: not_less)
qed

lemma atan2_polar:
  assumes "x \<noteq> 0 \<or> y \<noteq> 0"
  shows "sqrt (x\<^sup>2 + y\<^sup>2) * cos (atan2 y x) = x \<and>
    sqrt (x\<^sup>2 + y\<^sup>2) * sin (atan2 y x) = y"
proof (cases "x = 0")
  case True
  with assms show ?thesis by (auto simp: atan2_def)
next
  case False
  have r: "sqrt (x\<^sup>2 + y\<^sup>2) = \<bar>x\<bar> * sqrt (1 + (y / x)\<^sup>2)"
  proof -
    have "x\<^sup>2 + y\<^sup>2 = x\<^sup>2 * (1 + (y / x)\<^sup>2)"
      using False by (simp add: field_simps power2_eq_square)
    then show ?thesis by (simp add: real_sqrt_mult)
  qed
  have p: "0 < sqrt (1 + (y / x)\<^sup>2)" by (simp add: add_pos_nonneg)
  have c: "sqrt (x\<^sup>2 + y\<^sup>2) * cos (arctan (y / x)) = \<bar>x\<bar>"
    using p by (simp add: r cos_arctan)
  have s: "sqrt (x\<^sup>2 + y\<^sup>2) * sin (arctan (y / x)) = \<bar>x\<bar> * (y / x)"
    using p by (simp add: r sin_arctan)
  show ?thesis
  proof (cases "0 < x")
    case True
    with c s show ?thesis by (simp add: atan2_def)
  next
    case f: False
    with False have "x < 0" by simp
    with c s show ?thesis by (simp add: atan2_def)
  qed
qed

lemma atan2_Arg: "atan2 y x = Arg (Complex x y)"
proof (cases "x = 0 \<and> y = 0")
  case True
  then show ?thesis by (simp add: atan2_def Arg_zero Complex_eq_0 [THEN iffD2])
next
  case False
  then have nz: "x \<noteq> 0 \<or> y \<noteq> 0" by simp
  have m: "cmod (Complex x y) = sqrt (x\<^sup>2 + y\<^sup>2)" by (simp add: cmod_def)
  define r where "r = sqrt (x\<^sup>2 + y\<^sup>2)"
  have rpos: "0 < r" using nz unfolding r_def
    by (metis Complex_eq_0 m zero_less_norm_iff)
  from atan2_polar [OF nz] have e: "Complex x y = of_real r * cis (atan2 y x)"
    by (simp add: complex_eq_iff r_def)
  have "sgn (of_real r * cis (atan2 y x)) = cis (atan2 y x)"
    using rpos by (simp add: sgn_mult sgn_of_real)
  with e have "sgn (Complex x y) = cis (atan2 y x)" by simp
  then show ?thesis using atan2_range [of y x] by (simp add: cis_Arg_unique)
qed

lemma matMul_I: "matMul (matrix gate_I) (Vec a b) = Vec a b"
  by (simp add: gate_I_def entry_times_def mul_def add_def)

lemma matMul_X: "matMul (matrix gate_X) (Vec a b) = Vec b a"
  by (simp add: gate_X_def entry_times_def mul_def add_def)

lemma matMul_Z: "matMul (matrix gate_Z) (Vec a b) = Vec a (C (- re b) (- im b))"
  by (simp add: gate_Z_def entry_times_def mul_def add_def)

lemma matMul_S: "matMul (matrix gate_S) (Vec a b) = Vec a (C (- im b) (re b))"
  by (simp add: gate_S_def entry_times_def mul_def add_def)

lemma matMul_T:
  "matMul (matrix gate_T) (Vec a b) = Vec a (mul (C (cos (pi / 4)) (sin (pi / 4))) b)"
  by (simp add: gate_T_def entry_times_def mul_def add_def)

text \<open>The matrix of \<open>H\<close> as the table has it drops the second amplitude.\<close>

lemma matMul_H:
  "matMul (matrix gate_H) (Vec a b) = Vec (scale a (1 / sqrt 2)) (scale a (1 / sqrt 2))"
  by (simp add: gate_H_def entry_times_def mul_def add_def scale_def)

lemma apply_I: "unit_norm (Vec a b) \<Longrightarrow> applyGateName ''I'' (Vec a b) = Inr (Vec a b)"
  by (simp add: applyGateName_def GATES_get_simps matMul_I norm_vec_unit del: norm_vec.simps)

lemma apply_X:
  assumes "unit_norm (Vec a b)"
  shows "applyGateName ''X'' (Vec a b) = Inr (Vec b a)"
proof -
  from assms have "unit_norm (Vec b a)" by (simp add: unit_norm_def add.commute)
  then show ?thesis
    by (simp add: applyGateName_def GATES_get_simps matMul_X norm_vec_unit
        del: norm_vec.simps)
qed

lemma apply_Z:
  assumes "unit_norm (Vec a b)"
  shows "applyGateName ''Z'' (Vec a b) = Inr (Vec a (C (- re b) (- im b)))"
proof -
  from assms have "unit_norm (Vec a (C (- re b) (- im b)))"
    by (simp add: unit_norm_def abs2_def)
  then show ?thesis
    by (simp add: applyGateName_def GATES_get_simps matMul_Z norm_vec_unit
        del: norm_vec.simps)
qed

lemma apply_S:
  assumes "unit_norm (Vec a b)"
  shows "applyGateName ''S'' (Vec a b) = Inr (Vec a (C (- im b) (re b)))"
proof -
  from assms have "unit_norm (Vec a (C (- im b) (re b)))"
    by (simp add: unit_norm_def abs2_def add.commute)
  then show ?thesis
    by (simp add: applyGateName_def GATES_get_simps matMul_S norm_vec_unit
        del: norm_vec.simps)
qed

lemma apply_T:
  assumes "unit_norm (Vec a b)"
  shows "applyGateName ''T'' (Vec a b) =
    Inr (Vec a (mul (C (cos (pi / 4)) (sin (pi / 4))) b))"
proof -
  from assms have "unit_norm (Vec a (mul (C (cos (pi / 4)) (sin (pi / 4))) b))"
    by (simp add: unit_norm_def abs2_mul abs2_cis)
  then show ?thesis
    by (simp add: applyGateName_def GATES_get_simps matMul_T norm_vec_unit
        del: norm_vec.simps)
qed

text \<open>
  The five gates whose matrices are unitary keep the squared magnitudes at sum 1, and
  so does \<open>H\<close> on every state whose first amplitude is not zero.
\<close>

lemma unitary_gates_keep_norm:
  assumes "unit_norm st" and "g \<in> {''I'', ''X'', ''Z'', ''S'', ''T''}"
  shows "\<exists>st'. applyGateName g st = Inr st' \<and> unit_norm st'"
proof -
  from assms(1) obtain a b where st: "st = Vec a b"
    by (cases st) (simp_all add: unit_norm_def)
  from assms(2) consider "g = ''I''" | "g = ''X''" | "g = ''Z''" | "g = ''S''" | "g = ''T''"
    by blast
  then show ?thesis
  proof cases
    case 1
    with assms(1) st show ?thesis by (simp add: apply_I)
  next
    case 2
    with assms(1) st show ?thesis by (simp add: apply_X unit_norm_def add.commute)
  next
    case 3
    with assms(1) st show ?thesis by (simp add: apply_Z unit_norm_def abs2_def)
  next
    case 4
    with assms(1) st show ?thesis
      by (simp add: apply_S unit_norm_def abs2_def add.commute)
  next
    case 5
    with assms(1) st show ?thesis
      by (simp add: apply_T unit_norm_def abs2_mul abs2_cis)
  qed
qed

lemma H_keeps_norm_off_zero:
  assumes "a \<noteq> C 0 0"
  shows "\<exists>st'. applyGateName ''H'' (Vec a b) = Inr st' \<and> unit_norm st'"
proof -
  have "abs2 (scale a (1 / sqrt 2)) \<noteq> 0"
    using assms by (simp add: abs2_scale abs2_zero_iff)
  then have "scale a (1 / sqrt 2) \<noteq> C 0 0" by (simp add: abs2_zero_iff)
  then have "unit_norm (norm_vec (Vec (scale a (1 / sqrt 2)) (scale a (1 / sqrt 2))))"
    by (intro norm_vec_makes_unit) simp
  then show ?thesis
    by (simp add: applyGateName_def GATES_get_simps matMul_H del: norm_vec.simps)
qed

lemma H_on_zero_first_amplitude: "applyGateName ''H'' (Vec (C 0 0) b) = Inr NaNs"
  by (simp add: applyGateName_def GATES_get_simps matMul_H scale_def abs2_def)

lemma applyGateName_Undefined: "GATES_get g = Undefined \<Longrightarrow> applyGateName g st = Inr st"
  by (simp add: applyGateName_def)

lemma applyGateName_known:
  "GATES_get g \<noteq> Inherited \<Longrightarrow> \<exists>st'. applyGateName g st = Inr st'"
  by (cases "GATES_get g") (simp_all add: applyGateName_def)


section \<open>Gate application and the unit norm\<close>

text \<open>
  Claim C1: for every state whose squared magnitudes sum to 1 and every gate name of the
  table, the state that \<open>applyGateName\<close> returns has squared magnitudes of sum 1 again.
  The code does not do this for \<open>H\<close>: basis state 1 has sum 1, the matrix of \<open>H\<close> in the
  table sends it to the zero vector, and normalising the zero vector gives the
  all-\<^verbatim>\<open>NaN\<close> state, whose squared magnitudes do not sum to 1; running the circuit
  \<open>[X, H]\<close> ends there. The other five gates keep the sum
  (\<open>unitary_gates_keep_norm\<close>).
\<close>

theorem applyGateName_H_one_loses_norm:
  "unit_norm one \<and> map_of GATES ''H'' = Some gate_H \<and>
   applyGateName ''H'' one = Inr NaNs \<and> \<not> unit_norm NaNs \<and>
   (\<exists>s'. stepCircuit (init\<lparr>circuit := [''X'', ''H'']\<rparr>) = Inr s' \<and> state s' = NaNs)"
proof -
  have u: "unit_norm one" by (simp add: unit_norm_def one_def abs2_def)
  have x: "applyGateName ''X'' zero = Inr one"
    by (simp add: zero_def one_def apply_X unit_norm_def abs2_def)
  have h: "applyGateName ''H'' one = Inr NaNs"
    by (simp add: one_def H_on_zero_first_amplitude)
  have r: "\<exists>s'. stepCircuit (init\<lparr>circuit := [''X'', ''H'']\<rparr>) = Inr s' \<and> state s' = NaNs"
    using x h by (simp add: stepCircuit_def)
  from u h r show ?thesis by (simp add: unit_norm_def GATES_def)
qed

text \<open>
  Claim C2: for every state whose squared magnitudes sum to 1 and every gate of the
  table, the product of the gate's matrix with the state has a norm other than zero, so
  that \<open>norm\<close> never divides by zero and never produces \<^verbatim>\<open>NaN\<close> or \<^verbatim>\<open>Infinity\<close>.
  At \<open>H\<close> and basis state 1 the product is the zero vector, the square root \<open>s\<close> that
  \<open>norm\<close> computes is 0, and the result of \<open>norm\<close> is the all-\<^verbatim>\<open>NaN\<close> state.
\<close>

theorem matMul_H_one_zero_vector:
  "unit_norm one \<and> matMul (matrix gate_H) one = Vec (C 0 0) (C 0 0) \<and>
   sqrt (abs2 (C 0 0) + abs2 (C 0 0)) = 0 \<and>
   norm_vec (matMul (matrix gate_H) one) = NaNs"
  by (simp add: unit_norm_def one_def abs2_def matMul_H scale_def)

section \<open>Circuits of Hadamard gates\<close>

text \<open>
  Claim C3: running the circuit \<open>[H]\<close> from basis state 0, with the matrix of \<open>H\<close> as
  the table defines it, gives the amplitudes \<open>(1/\<surd>2, 1/\<surd>2)\<close>, and running \<open>[H, H]\<close>
  does not come back to basis state 0.
\<close>

theorem hadamard_circuits:
  "(circuit s = [''H''] \<longrightarrow>
      (\<exists>s'. stepCircuit s = Inr s' \<and>
         state s' = Vec (C (1 / sqrt 2) 0) (C (1 / sqrt 2) 0))) \<and>
   (circuit s = [''H'', ''H''] \<longrightarrow>
      (\<exists>s'. stepCircuit s = Inr s' \<and> state s' \<noteq> zero))"
proof -
  have h1: "applyGateName ''H'' zero = Inr (Vec (C (1 / sqrt 2) 0) (C (1 / sqrt 2) 0))"
    by (simp add: applyGateName_def GATES_get_simps gate_H_def zero_def entry_times_def
        mul_def add_def abs2_def scale_def)
  have h2: "applyGateName ''H'' (Vec (C (1 / sqrt 2) 0) (C (1 / sqrt 2) 0)) =
      Inr (Vec (C (1 / sqrt 2) 0) (C (1 / sqrt 2) 0))"
    by (simp add: applyGateName_def GATES_get_simps gate_H_def entry_times_def
        mul_def add_def abs2_def scale_def sqrt_half)
  have ne: "Vec (C (1 / sqrt 2) 0) (C (1 / sqrt 2) 0) \<noteq> zero"
    by (simp add: zero_def)
  show ?thesis using h1 h2 ne by (simp add: stepCircuit_def)
qed

theorem hadamard_circuits_witness:
  "circuit (init\<lparr>circuit := [''H'']\<rparr>) = [''H''] \<and>
   (\<exists>s'. stepCircuit (init\<lparr>circuit := [''H'']\<rparr>) = Inr s' \<and>
      state s' = Vec (C (1 / sqrt 2) 0) (C (1 / sqrt 2) 0)) \<and>
   circuit (init\<lparr>circuit := [''H'', ''H'']\<rparr>) = [''H'', ''H''] \<and>
   (\<exists>s'. stepCircuit (init\<lparr>circuit := [''H'', ''H'']\<rparr>) = Inr s' \<and> state s' \<noteq> zero)"
  using hadamard_circuits [of "init\<lparr>circuit := [''H'']\<rparr>"]
    hadamard_circuits [of "init\<lparr>circuit := [''H'', ''H'']\<rparr>"]
  by simp

section \<open>Self-inverse gates\<close>

text \<open>
  Claim C4: for every state whose squared magnitudes sum to 1 and every gate among
  \<open>I\<close>, \<open>X\<close> and \<open>Z\<close>, applying the gate twice with \<open>applyGateName\<close> gives the state back;
  in particular the circuit \<open>[X, X]\<close> run from basis state 0 ends in basis state 0.
\<close>

theorem self_inverse_gates:
  "(unit_norm st \<and> g \<in> {''I'', ''X'', ''Z''} \<longrightarrow>
      (\<exists>st'. applyGateName g st = Inr st' \<and> applyGateName g st' = Inr st)) \<and>
   (circuit s = [''X'', ''X''] \<longrightarrow>
      (\<exists>s'. stepCircuit s = Inr s' \<and> state s' = zero))"
proof -
  have a: "\<exists>st'. applyGateName g st = Inr st' \<and> applyGateName g st' = Inr st"
    if u: "unit_norm st" and g: "g \<in> {''I'', ''X'', ''Z''}"
  proof -
    from u obtain a b where st: "st = Vec a b"
      by (cases st) (simp_all add: unit_norm_def)
    have ux: "unit_norm (Vec b a)" using u st by (simp add: unit_norm_def add.commute)
    have uz: "unit_norm (Vec a (C (- re b) (- im b)))"
      using u st by (simp add: unit_norm_def abs2_def)
    from g consider "g = ''I''" | "g = ''X''" | "g = ''Z''" by blast
    then show ?thesis
    proof cases
      case 1
      with u st show ?thesis by (simp add: apply_I)
    next
      case 2
      with u st ux show ?thesis by (simp add: apply_X)
    next
      case 3
      with u st uz show ?thesis by (simp add: apply_Z)
    qed
  qed
  have z: "unit_norm zero" by (simp add: unit_norm_def zero_def abs2_def)
  have o: "unit_norm one" by (simp add: unit_norm_def one_def abs2_def)
  have x1: "applyGateName ''X'' zero = Inr one"
    using z by (simp add: zero_def one_def apply_X)
  have x2: "applyGateName ''X'' one = Inr zero"
    using o by (simp add: zero_def one_def apply_X)
  have b: "\<exists>s'. stepCircuit s = Inr s' \<and> state s' = zero" if "circuit s = [''X'', ''X'']"
    using that x1 x2 by (simp add: stepCircuit_def)
  from a b show ?thesis by blast
qed

theorem self_inverse_gates_witness:
  "unit_norm (Vec (C (3 / 5) 0) (C 0 (4 / 5))) \<and> ''Z'' \<in> {''I'', ''X'', ''Z''} \<and>
   (\<exists>st'. applyGateName ''Z'' (Vec (C (3 / 5) 0) (C 0 (4 / 5))) = Inr st' \<and>
      applyGateName ''Z'' st' = Inr (Vec (C (3 / 5) 0) (C 0 (4 / 5)))) \<and>
   circuit (init\<lparr>circuit := [''X'', ''X'']\<rparr>) = [''X'', ''X''] \<and>
   (\<exists>s'. stepCircuit (init\<lparr>circuit := [''X'', ''X'']\<rparr>) = Inr s' \<and> state s' = zero)"
proof -
  have u: "unit_norm (Vec (C (3 / 5) 0) (C 0 (4 / 5)))"
    by (simp add: unit_norm_def abs2_def)
  from u self_inverse_gates [of "Vec (C (3 / 5) 0) (C 0 (4 / 5))" "''Z''"
      "init\<lparr>circuit := [''X'', ''X'']\<rparr>"]
  show ?thesis by simp
qed


section \<open>Running a circuit\<close>

lemma stepCircuit_loop_fold:
  "known_names gs \<Longrightarrow>
   \<exists>st' h. stepCircuit_loop gs st acc = Inr (st', acc @ h) \<and> length h = length gs \<and>
     fold_gates gs st = Inr st' \<and>
     (\<forall>k < length gs. \<exists>stk. fold_gates (take (Suc k) gs) st = Inr stk \<and>
        h ! k = Entry (gs ! k) stk)"
proof (induction gs arbitrary: st acc)
  case Nil
  then show ?case by simp
next
  case (Cons g gs)
  from Cons.prems have kg: "GATES_get g \<noteq> Inherited" and kgs: "known_names gs"
    by (simp_all add: known_names_def)
  from applyGateName_known [OF kg] obtain st1 where a: "applyGateName g st = Inr st1"
    by blast
  from Cons.IH [OF kgs, of st1 "acc @ [Entry g st1]"]
  obtain st' h where
    l: "stepCircuit_loop gs st1 (acc @ [Entry g st1]) = Inr (st', (acc @ [Entry g st1]) @ h)"
    and len: "length h = length gs" and f: "fold_gates gs st1 = Inr st'"
    and each: "\<forall>k < length gs. \<exists>stk. fold_gates (take (Suc k) gs) st1 = Inr stk \<and>
        h ! k = Entry (gs ! k) stk"
    by blast
  have "\<forall>k < length (g # gs). \<exists>stk. fold_gates (take (Suc k) (g # gs)) st = Inr stk \<and>
        (Entry g st1 # h) ! k = Entry ((g # gs) ! k) stk"
  proof (intro allI impI)
    fix k assume "k < length (g # gs)"
    then show "\<exists>stk. fold_gates (take (Suc k) (g # gs)) st = Inr stk \<and>
        (Entry g st1 # h) ! k = Entry ((g # gs) ! k) stk"
      using each a by (cases k) simp_all
  qed
  with l len f a show ?case
    by (intro exI [of _ st'] exI [of _ "Entry g st1 # h"]) simp
qed

lemma fold_gates_known: "known_names gs \<Longrightarrow> \<exists>st'. fold_gates gs st = Inr st'"
  using stepCircuit_loop_fold [of gs st "[]"] by blast

lemma known_names_take: "known_names gs \<Longrightarrow> known_names (take n gs)"
  by (auto simp: known_names_def dest: in_set_takeD)

text \<open>
  Claim C5: for every circuit, \<open>stepCircuit\<close> rebuilds the history from scratch, one
  entry per gate: the gate's name paired with the state obtained by folding
  \<open>applyGateName\<close> over the gates up to and including that one, from basis state 0. The
  current state becomes the state of the last entry, or basis state 0 for the empty
  circuit. A circuit is a list of gate names; the theorem covers every list in which no
  name is a property that the table merely inherits, so every list over the six gate
  names (\<open>gate_names_known\<close>).
\<close>

theorem stepCircuit_history:
  assumes "known_names (circuit s)"
  shows "\<exists>s'. stepCircuit s = Inr s' \<and>
     length (history s') = length (circuit s) \<and>
     (\<forall>k < length (circuit s). \<exists>stk.
        fold_gates (take (Suc k) (circuit s)) zero = Inr stk \<and>
        history s' ! k = Entry (circuit s ! k) stk) \<and>
     state s' = (if circuit s = [] then zero else state_of (last (history s'))) \<and>
     circuit s' = circuit s \<and> selectedGate s' = selectedGate s \<and>
     measurement s' = measurement s"
proof -
  from stepCircuit_loop_fold [OF assms, of zero "[]"]
  obtain st' h where l: "stepCircuit_loop (circuit s) zero [] = Inr (st', h)"
    and len: "length h = length (circuit s)"
    and each: "\<forall>k < length (circuit s). \<exists>stk.
        fold_gates (take (Suc k) (circuit s)) zero = Inr stk \<and>
        h ! k = Entry (circuit s ! k) stk"
    by auto
  let ?s' = "s\<lparr>history := h,
       state := (if length h \<noteq> 0 then state_of (h ! (length h - 1)) else zero)\<rparr>"
  have r: "stepCircuit s = Inr ?s'" by (simp add: stepCircuit_def l)
  have st: "state ?s' = (if circuit s = [] then zero else state_of (last (history ?s')))"
    using len by (cases "h = []") (auto simp: last_conv_nth)
  show ?thesis
    using r len each st by (intro exI [of _ ?s']) simp
qed


theorem stepCircuit_history_witness:
  "known_names (circuit (init\<lparr>circuit := [''X'', ''H'']\<rparr>)) \<and>
   (\<exists>s'. stepCircuit (init\<lparr>circuit := [''X'', ''H'']\<rparr>) = Inr s' \<and>
      length (history s') = 2 \<and>
      (\<exists>st1. fold_gates [''X''] zero = Inr st1 \<and> history s' ! 0 = Entry ''X'' st1) \<and>
      (\<exists>st2. fold_gates [''X'', ''H''] zero = Inr st2 \<and> history s' ! 1 = Entry ''H'' st2) \<and>
      state s' = state_of (last (history s')))"
proof -
  let ?s = "init\<lparr>circuit := [''X'', ''H'']\<rparr>"
  have k: "known_names (circuit ?s)"
    by (simp add: known_names_def GATES_get_simps)
  from stepCircuit_history [OF k] obtain s' where
    r: "stepCircuit ?s = Inr s'" and len: "length (history s') = length (circuit ?s)"
    and each: "\<forall>k < length (circuit ?s). \<exists>stk.
        fold_gates (take (Suc k) (circuit ?s)) zero = Inr stk \<and>
        history s' ! k = Entry (circuit ?s ! k) stk"
    and st: "state s' = (if circuit ?s = [] then zero else state_of (last (history s')))"
    by blast
  from each [rule_format, of 0] have e0:
    "\<exists>st1. fold_gates [''X''] zero = Inr st1 \<and> history s' ! 0 = Entry ''X'' st1"
    by simp
  from each [rule_format, of 1] have e1:
    "\<exists>st2. fold_gates [''X'', ''H''] zero = Inr st2 \<and> history s' ! 1 = Entry ''H'' st2"
    by simp
  from k r len e0 e1 st show ?thesis by simp
qed

section \<open>Measurement\<close>

text \<open>
  Claim C6: for every current state and every sample \<open>r\<close> in \<open>[0, 1)\<close>, \<open>measure\<close> takes
  \<open>p0\<close> to be the squared magnitude of the first amplitude, yields outcome 0 if
  \<open>r < p0\<close> and outcome 1 otherwise, records the outcome and sets the current state to
  the basis vector of that outcome; on basis state 0 the outcome is 0 for every such
  \<open>r\<close>. On the all-\<^verbatim>\<open>NaN\<close> state \<open>p0\<close> is \<^verbatim>\<open>NaN\<close>, the comparison is false, and
  the outcome is 1. The squared magnitude is stated with the modulus of the library's
  complex numbers.
\<close>

theorem measure_q_spec:
  "measure_q r s =
     (case state s of
        Vec a b \<Rightarrow>
          s\<lparr>measurement := Some (if r < (cmod (Complex (re a) (im a)))\<^sup>2 then 0 else 1),
            state := (if r < (cmod (Complex (re a) (im a)))\<^sup>2 then zero else one)\<rparr>
      | NaNs \<Rightarrow> s\<lparr>measurement := Some 1, state := one\<rparr>) \<and>
   (state s = zero \<and> 0 \<le> r \<and> r < 1 \<longrightarrow>
      measure_q r s = s\<lparr>measurement := Some 0, state := zero\<rparr>)"
  by (cases "state s")
    (simp_all add: measure_q_def Let_def zero_def abs2_def flip: abs2_cmod)

theorem measure_q_spec_witness:
  "state init = zero \<and> (0 :: real) \<le> 1 / 2 \<and> (1 / 2 :: real) < 1 \<and>
   measure_q (1 / 2) init = init\<lparr>measurement := Some 0, state := zero\<rparr>"
proof -
  have z: "state init = zero" by (simp add: init_def)
  then have h: "state init = zero \<and> (0 :: real) \<le> 1 / 2 \<and> (1 / 2 :: real) < 1" by simp
  from measure_q_spec [of "1 / 2" init, THEN conjunct2, rule_format, OF h] z
  show ?thesis by simp
qed

section \<open>Names that are not in the gate table\<close>

text \<open>
  Claim C7: for every gate name that is not in the gate table and every state,
  \<open>applyGateName\<close> returns the state unchanged and does not crash. The code does so for
  the names that are no property of the table at all (\<open>applyGateName_Undefined\<close>). The
  name \<^verbatim>\<open>constructor\<close> is not in the table, but the lookup finds the function that the
  table inherits from its prototype, which passes the test for a gate; its \<^verbatim>\<open>matrix\<close>
  is \<^verbatim>\<open>undefined\<close>, and \<^verbatim>\<open>matMul\<close> throws a \<^verbatim>\<open>TypeError\<close> on reading its row 0.
\<close>

theorem applyGateName_constructor_throws:
  "map_of GATES ''constructor'' = None \<and>
   applyGateName ''constructor'' zero = Inl TypeError"
  by (simp add: applyGateName_def GATES_get_def GATES_def Object_prototype_keys_def)

section \<open>Bloch angles of a state\<close>

text \<open>
  Claim C8: for a state \<open>(a, b)\<close>, \<open>stateToBlochAngles\<close> returns \<open>theta\<close> as twice the
  arc cosine of \<open>|a|\<close> clamped to \<open>[-1, 1]\<close> and \<open>phi\<close> as
  \<open>atan2 (im b) (re b) - atan2 (im a) (re a)\<close>; basis state 0 has \<open>theta = 0\<close> and basis
  state 1 has \<open>theta = \<pi>\<close>. The modulus \<open>|a|\<close> is the one of the library's complex
  numbers.
\<close>

theorem stateToBlochAngles_spec:
  "stateToBlochAngles (Vec a b) =
     Some \<lparr>theta = 2 * arccos (min 1 (max (- 1) (cmod (Complex (re a) (im a))))),
           phi = atan2 (im b) (re b) - atan2 (im a) (re a)\<rparr> \<and>
   stateToBlochAngles zero = Some \<lparr>theta = 0, phi = 0\<rparr> \<and>
   stateToBlochAngles one = Some \<lparr>theta = pi, phi = 0\<rparr>"
proof -
  have g: "stateToBlochAngles (Vec a b) =
     Some \<lparr>theta = 2 * arccos (min 1 (max (- 1) (cmod (Complex (re a) (im a))))),
           phi = atan2 (im b) (re b) - atan2 (im a) (re a)\<rparr>"
    by (simp add: Let_def arg_def sqrt_abs2_cmod)
  have z: "stateToBlochAngles zero = Some \<lparr>theta = 0, phi = 0\<rparr>"
    by (simp add: zero_def Let_def arg_def atan2_def abs2_def)
  have o: "stateToBlochAngles one = Some \<lparr>theta = pi, phi = 0\<rparr>"
    by (simp add: one_def Let_def arg_def atan2_def abs2_def)
  from g z o show ?thesis by blast
qed

text \<open>On a normalized state the clamp changes nothing and \<open>theta\<close> lies in \<open>[0, \<pi>]\<close>.\<close>

lemma stateToBlochAngles_unit:
  assumes "unit_norm (Vec a b)"
  shows "\<exists>ang. stateToBlochAngles (Vec a b) = Some ang \<and>
     theta ang = 2 * arccos (sqrt (abs2 a)) \<and> 0 \<le> theta ang \<and> theta ang \<le> pi"
proof -
  have "abs2 a \<le> 1" using assms abs2_nonneg [of b] by (simp add: unit_norm_def)
  then have le: "sqrt (abs2 a) \<le> 1" by simp
  have ge: "0 \<le> sqrt (abs2 a)" by (simp add: abs2_nonneg)
  from ge have m1: "- 1 \<le> sqrt (abs2 a)" by linarith
  have c: "min 1 (max (- 1) (sqrt (abs2 a))) = sqrt (abs2 a)"
    using le m1 by (simp only: max.absorb2 min.absorb2)
  have "arccos (sqrt (abs2 a)) \<le> arccos 0"
    using ge le
    by (intro arccos_le_mono [THEN iffD2])
      (simp_all only: abs_of_nonneg abs_zero zero_le_one)
  then have "arccos (sqrt (abs2 a)) \<le> pi / 2" by (simp only: arccos_0)
  moreover have "0 \<le> arccos (sqrt (abs2 a))" by (rule arccos_lbound [OF m1 le])
  moreover have "min 1 (sqrt (abs2 a)) = sqrt (abs2 a)"
    using le by (simp only: min.absorb2)
  ultimately show ?thesis using c by (simp add: Let_def)
qed

section \<open>Running up to a step\<close>

lemma runStep_loop_fold:
  "i \<le> length circ \<Longrightarrow>
   runStep_loop circ index i st =
     fold_gates (take (nat (index + 1) - i) (drop i circ)) st"
proof (induction circ index i st rule: runStep_loop.induct)
  case (1 circ index i st)
  show ?case
  proof (cases "int i \<le> index \<and> i < length circ")
    case True
    then have d: "drop i circ = circ ! i # drop (Suc i) circ"
      by (simp add: Cons_nth_drop_Suc)
    from True have "i < nat (index + 1)" by linarith
    then have m: "nat (index + 1) - i = Suc (nat (index + 1) - Suc i)" by simp
    show ?thesis
    proof (cases "applyGateName (circ ! i) st")
      case (Inl e)
      with True d m show ?thesis
        by (subst runStep_loop.simps) simp
    next
      case (Inr st')
      from True have "i + 1 \<le> length circ" by simp
      from "1.IH" [OF True Inr this] Inr True d m show ?thesis
        by (subst runStep_loop.simps) simp
    qed
  next
    case False
    then have "nat (index + 1) - i = 0 \<or> drop i circ = []"
      by auto
    then have e: "fold_gates (take (nat (index + 1) - i) (drop i circ)) st = Inr st"
      by auto
    have l: "runStep_loop circ index i st = Inr st"
      by (subst runStep_loop.simps) (use False in auto)
    show ?thesis by (simp only: e l)
  qed
qed

text \<open>
  Claim C9: for every circuit and every index with \<open>0 \<le> index < length circuit\<close>,
  \<open>runStep index\<close> sets the current state to the result of folding \<open>applyGateName\<close> over
  the gates 0 to \<open>index\<close>, inclusive, from basis state 0, and leaves the history, the
  circuit and the measurement outcome as they were. As for C5, the circuit is a list in
  which no name is one that the table merely inherits.
\<close>

theorem runStep_frame:
  assumes "0 \<le> index" and "index < int (length (circuit s))"
    and "known_names (circuit s)"
  shows "\<exists>st s'. fold_gates (take (nat index + 1) (circuit s)) zero = Inr st \<and>
     runStep index s = Inr s' \<and> state s' = st \<and>
     history s' = history s \<and> circuit s' = circuit s \<and>
     measurement s' = measurement s"
proof -
  from fold_gates_known [OF known_names_take [OF assms(3)]]
  obtain st where f: "fold_gates (take (nat index + 1) (circuit s)) zero = Inr st"
    by blast
  have n: "nat (index + 1) = nat index + 1" using assms(1) by simp
  have "runStep_loop (circuit s) index 0 zero = Inr st"
    using runStep_loop_fold [of 0 "circuit s" index zero] f n by simp
  then have "runStep index s = Inr (s\<lparr>state := st\<rparr>)" by (simp add: runStep_def)
  with f show ?thesis by simp
qed

theorem runStep_frame_witness:
  "(0 :: int) \<le> 1 \<and> 1 < int (length (circuit (init\<lparr>circuit := [''X'', ''Z'', ''H'']\<rparr>))) \<and>
   known_names (circuit (init\<lparr>circuit := [''X'', ''Z'', ''H'']\<rparr>)) \<and>
   (\<exists>st s'. fold_gates [''X'', ''Z''] zero = Inr st \<and>
      runStep 1 (init\<lparr>circuit := [''X'', ''Z'', ''H'']\<rparr>) = Inr s' \<and> state s' = st \<and>
      history s' = [] \<and> circuit s' = [''X'', ''Z'', ''H''] \<and> measurement s' = None)"
proof -
  let ?s = "init\<lparr>circuit := [''X'', ''Z'', ''H'']\<rparr>"
  have k: "known_names (circuit ?s)"
    by (simp add: known_names_def GATES_get_simps)
  have i: "1 < int (length (circuit ?s))" by simp
  have z: "(0 :: int) \<le> 1" by simp
  from runStep_frame [OF z i k] k show ?thesis by (simp add: init_def)
qed

text \<open>
  Claim C10: \<open>runStep\<close> returns for every index that is not negative, also at and beyond
  the length of the circuit: the loop stops at the end of the circuit, so that an index
  of at least the length less one replays the whole circuit from basis state 0, reads no
  element out of range, and ends in the state in which running the whole circuit ends.
\<close>

theorem runStep_beyond:
  assumes "0 \<le> index" and "known_names (circuit s)"
  shows "(\<exists>s1. runStep index s = Inr s1) \<and>
     (int (length (circuit s)) - 1 \<le> index \<longrightarrow>
        (\<exists>st s1 s2. fold_gates (circuit s) zero = Inr st \<and>
           runStep index s = Inr s1 \<and> state s1 = st \<and>
           stepCircuit s = Inr s2 \<and> state s2 = st))"
proof
  from fold_gates_known [OF known_names_take [OF assms(2)]]
  obtain st where "fold_gates (take (nat (index + 1)) (circuit s)) zero = Inr st"
    by blast
  then have "runStep_loop (circuit s) index 0 zero = Inr st"
    using runStep_loop_fold [of 0 "circuit s" index zero] by simp
  then show "\<exists>s1. runStep index s = Inr s1" by (simp add: runStep_def)
next
  show "int (length (circuit s)) - 1 \<le> index \<longrightarrow>
        (\<exists>st s1 s2. fold_gates (circuit s) zero = Inr st \<and>
           runStep index s = Inr s1 \<and> state s1 = st \<and>
           stepCircuit s = Inr s2 \<and> state s2 = st)"
  proof
    assume beyond: "int (length (circuit s)) - 1 \<le> index"
    from stepCircuit_loop_fold [OF assms(2), of zero "[]"]
    obtain st h where l: "stepCircuit_loop (circuit s) zero [] = Inr (st, h)"
      and len: "length h = length (circuit s)"
      and f: "fold_gates (circuit s) zero = Inr st"
      and each: "\<forall>k < length (circuit s). \<exists>stk.
          fold_gates (take (Suc k) (circuit s)) zero = Inr stk \<and>
          h ! k = Entry (circuit s ! k) stk"
      by auto
    have "length (circuit s) \<le> nat (index + 1)" using assms(1) beyond by linarith
    then have "runStep_loop (circuit s) index 0 zero = Inr st"
      using runStep_loop_fold [of 0 "circuit s" index zero] f by simp
    then have r: "runStep index s = Inr (s\<lparr>state := st\<rparr>)" by (simp add: runStep_def)
    let ?s' = "s\<lparr>history := h,
         state := (if length h \<noteq> 0 then state_of (h ! (length h - 1)) else zero)\<rparr>"
    have sc: "stepCircuit s = Inr ?s'" by (simp add: stepCircuit_def l)
    have "state ?s' = st"
    proof (cases "circuit s = []")
      case True
      with f len show ?thesis by simp
    next
      case False
      then have lt: "length (circuit s) - 1 < length (circuit s)" by simp
      from each [rule_format, OF lt] obtain stk where
        "fold_gates (take (Suc (length (circuit s) - 1)) (circuit s)) zero = Inr stk"
        "h ! (length (circuit s) - 1) = Entry (circuit s ! (length (circuit s) - 1)) stk"
        by blast
      with False f len show ?thesis by simp
    qed
    with f r sc show "\<exists>st s1 s2. fold_gates (circuit s) zero = Inr st \<and>
           runStep index s = Inr s1 \<and> state s1 = st \<and>
           stepCircuit s = Inr s2 \<and> state s2 = st"
      by simp
  qed
qed

theorem runStep_beyond_witness:
  "(0 :: int) \<le> 7 \<and> known_names (circuit (init\<lparr>circuit := [''X'', ''T'']\<rparr>)) \<and>
   int (length (circuit (init\<lparr>circuit := [''X'', ''T'']\<rparr>))) - 1 \<le> 7 \<and>
   (\<exists>st s1 s2. fold_gates [''X'', ''T''] zero = Inr st \<and>
      runStep 7 (init\<lparr>circuit := [''X'', ''T'']\<rparr>) = Inr s1 \<and> state s1 = st \<and>
      stepCircuit (init\<lparr>circuit := [''X'', ''T'']\<rparr>) = Inr s2 \<and> state s2 = st)"
proof -
  let ?s = "init\<lparr>circuit := [''X'', ''T'']\<rparr>"
  have k: "known_names (circuit ?s)"
    by (simp add: known_names_def GATES_get_simps)
  have i: "int (length (circuit ?s)) - 1 \<le> 7" by simp
  have z: "(0 :: int) \<le> 7" by simp
  from runStep_beyond [OF z k, THEN conjunct2, rule_format, OF i] k
  show ?thesis by simp
qed

end
